theory Spec2Isabelle
  imports Complex_Main
begin

section \<open>The Transform Kernel, as a parameter\<close>

text \<open>
  \<^verbatim>\<open>XLocation.cpp\<close> forwards to a geometry kernel that is not part of the repository:
  a transform type with a default constructor (\<^verbatim>\<open>gp_Trsf scaler;\<close>), a setter
  \<^verbatim>\<open>SetScaleFactor\<close>, a binary \<^verbatim>\<open>Multiplied\<close> and the predicate behind
  \<^verbatim>\<open>IsIdentity\<close>. The kernel is a parameter of the model: a record of four operations over
  an arbitrary transform type \<open>'t\<close>. A kernel call either returns a transform or raises an
  exception of the kernel's type \<open>'e\<close>; the C++ has no \<^verbatim>\<open>try\<close>, so the exception leaves the
  method. \<^verbatim>\<open>Multiplied\<close> of the kernel returns its result by value and changes neither operand.

  The scale factor is a C++ \<^verbatim>\<open>double\<close>. The two methods do no arithmetic on it, they only hand
  it to the kernel, so the model needs its values and not its operations: a finite real, or
  one of the three non-finite values.
\<close>

datatype double = Finite real | PlusInfinity | MinusInfinity | NaN

record ('t, 'e) kernel =
  gp_Trsf :: 't
  SetScaleFactor :: "'t \<Rightarrow> double \<Rightarrow> 'e + 't"
  Trsf_Multiplied :: "'t \<Rightarrow> 't \<Rightarrow> 'e + 't"
  Trsf_IsIdentity :: "'t \<Rightarrow> bool"

section \<open>Managed objects\<close>

text \<open>
  An \<^verbatim>\<open>IXLocation^\<close> is a handle into the garbage-collected heap or \<^verbatim>\<open>nullptr\<close>. The heap
  is the list of the objects allocated so far, an address is an index into it, and
  \<^verbatim>\<open>gcnew\<close> appends: the new object gets the address no object had before. An object is an
  \<^verbatim>\<open>XLocation\<close> or an instance of some other class that implements \<^verbatim>\<open>IXLocation\<close>.
\<close>

datatype 't IXLocation = XLocation (transform: 't) | OtherLocation

type_synonym 't heap = "'t IXLocation list"

type_synonym handle = "nat option"

definition gcnew :: "'t heap \<Rightarrow> 't IXLocation \<Rightarrow> handle \<times> 't heap" where
  "gcnew h obj = (Some (length h), h @ [obj])"

text \<open>
  Modelled from the spec: the declaration of the class (\<^verbatim>\<open>XLocation.h\<close>) is missing from the
  source. By the spec's data model an \<^verbatim>\<open>XLocation\<close> owns one transform value, copied on
  construction (hence the constructor \<^const>\<open>XLocation\<close> takes the transform by value),
  \<^verbatim>\<open>Ref()\<close> reads it, and the property \<^verbatim>\<open>IsIdentity\<close> is the kernel's identity predicate on it.
\<close>

definition Ref :: "'t heap \<Rightarrow> nat \<Rightarrow> 't" where
  "Ref h this = transform (h ! this)"

definition IsIdentity :: "('t, 'e) kernel \<Rightarrow> 't heap \<Rightarrow> nat \<Rightarrow> bool" where
  "IsIdentity k h this = Trsf_IsIdentity k (Ref h this)"

text \<open>\<^verbatim>\<open>dynamic_cast<XLocation^>(location)\<close>: the same handle when the object is an
  \<^verbatim>\<open>XLocation\<close>, \<^verbatim>\<open>nullptr\<close> otherwise and for \<^verbatim>\<open>nullptr\<close>.\<close>

definition dynamic_cast_XLocation :: "'t heap \<Rightarrow> handle \<Rightarrow> handle" where
  "dynamic_cast_XLocation h location =
     (case location of
        None \<Rightarrow> None
      | Some a \<Rightarrow> (case h ! a of XLocation _ \<Rightarrow> Some a | OtherLocation \<Rightarrow> None))"

section \<open>The two methods of \<^verbatim>\<open>XLocation.cpp\<close>\<close>

text \<open>
  A method takes the kernel, the heap and the address of its receiver \<open>this\<close>, and returns
  either the exception that left it or the returned handle with the heap after the call.
  \<^verbatim>\<open>
  auto xbimLoc = dynamic_cast<XLocation^>(location);
  if (location == nullptr || xbimLoc == nullptr || xbimLoc->IsIdentity) return gcnew XLocation(Ref());
  return gcnew XLocation(xbimLoc->Ref().Multiplied(Ref()));
  \<close>
\<close>

definition Multiplied ::
  "('t, 'e) kernel \<Rightarrow> 't heap \<Rightarrow> nat \<Rightarrow> handle \<Rightarrow> 'e + handle \<times> 't heap" where
  "Multiplied k h this location =
     (let xbimLoc = dynamic_cast_XLocation h location in
      if location = None then Inr (gcnew h (XLocation (Ref h this)))
      else (case xbimLoc of
              None \<Rightarrow> Inr (gcnew h (XLocation (Ref h this)))
            | Some x \<Rightarrow>
                if IsIdentity k h x then Inr (gcnew h (XLocation (Ref h this)))
                else (case Trsf_Multiplied k (Ref h x) (Ref h this) of
                        Inl e \<Rightarrow> Inl e
                      | Inr t \<Rightarrow> Inr (gcnew h (XLocation t)))))"

text \<open>
  \<^verbatim>\<open>
  gp_Trsf scaler;
  scaler.SetScaleFactor(scale);
  return gcnew XLocation(Ref().Multiplied(scaler));
  \<close>
\<close>

definition ScaledBy ::
  "('t, 'e) kernel \<Rightarrow> 't heap \<Rightarrow> nat \<Rightarrow> double \<Rightarrow> 'e + handle \<times> 't heap" where
  "ScaledBy k h this scale =
     (let scaler = gp_Trsf k in
      case SetScaleFactor k scaler scale of
        Inl e \<Rightarrow> Inl e
      | Inr scaler' \<Rightarrow>
          (case Trsf_Multiplied k (Ref h this) scaler' of
             Inl e \<Rightarrow> Inl e
           | Inr t \<Rightarrow> Inr (gcnew h (XLocation t))))"

section \<open>Vocabulary of the properties\<close>

text \<open>A handle held by managed code is \<^verbatim>\<open>nullptr\<close> or the address of an allocated object;
  it never dangles. The definitions above read \<open>h ! a\<close> only at a handle they were given, and
  a theorem that depends on what is read there names the object at that address in a
  hypothesis.\<close>

definition valid_handle :: "'t heap \<Rightarrow> handle \<Rightarrow> bool" where
  "valid_handle h p = (case p of None \<Rightarrow> True | Some a \<Rightarrow> a < length h)"

text \<open>What a call shows to its caller: the exception, or the transform that the returned
  Location wraps (\<open>None\<close> for a returned \<^verbatim>\<open>nullptr\<close>).\<close>

definition outcome :: "'e + handle \<times> 't heap \<Rightarrow> 'e + 't option" where
  "outcome r =
     (case r of
        Inl e \<Rightarrow> Inl e
      | Inr (p, h') \<Rightarrow> (case p of None \<Rightarrow> Inr None | Some a \<Rightarrow> Inr (Some (Ref h' a))))"

text \<open>What \<^verbatim>\<open>Multiplied\<close> can see of its argument: the wrapped transform of an
  \<^verbatim>\<open>XLocation\<close>, nothing for \<^verbatim>\<open>nullptr\<close> and for an object of another class.\<close>

definition native_transform :: "'t heap \<Rightarrow> handle \<Rightarrow> 't option" where
  "native_transform h location =
     (case dynamic_cast_XLocation h location of None \<Rightarrow> None | Some x \<Rightarrow> Some (Ref h x))"

text \<open>
  Modelled from the spec: the arithmetic of the kernel is missing. By the spec's glossary the
  identity transform maps every point to itself and composing with it is a no-op. For the
  two kernel calls of \<^verbatim>\<open>ScaledBy(1.0)\<close> on a receiver that wraps \<open>T\<close> this says: setting the
  factor 1.0 on a default-constructed transform leaves the identity, and \<open>T\<close> multiplied
  by the identity is \<open>T\<close>.
\<close>

definition identity_laws :: "('t, 'e) kernel \<Rightarrow> 't \<Rightarrow> bool" where
  "identity_laws k T =
     (SetScaleFactor k (gp_Trsf k) (Finite 1) = Inr (gp_Trsf k) \<and>
      Trsf_Multiplied k T (gp_Trsf k) = Inr T)"

section \<open>A kernel to evaluate with\<close>

text \<open>
  Modelled from the spec: the kernel itself is an external library, absent from the source.
  The theorems below hold for every kernel; this one instance serves to run them on concrete
  values. Its transforms are the maps \<open>x \<mapsto> factor * x + shift\<close> of 3D space (a uniform
  scale and a translation). \<open>A.Multiplied(B)\<close> applies \<open>A\<close> first and \<open>B\<close> after it, the
  order in which the spec reads the kernel's composition ("this transform applied first,
  then the scale"): it is the map \<open>x \<mapsto> B (A x)\<close>. The default constructor gives the
  identity, and the setter replaces the factor and refuses a factor that is not finite.
\<close>

record trsf =
  factor :: real
  shift :: "real \<times> real \<times> real"

datatype kernel_error = ConstructionError

definition trsf_identity :: trsf where
  "trsf_identity = \<lparr>factor = 1, shift = (0, 0, 0)\<rparr>"

definition trsf_SetScaleFactor :: "trsf \<Rightarrow> double \<Rightarrow> kernel_error + trsf" where
  "trsf_SetScaleFactor T s =
     (case s of Finite r \<Rightarrow> Inr (T\<lparr>factor := r\<rparr>) | _ \<Rightarrow> Inl ConstructionError)"

definition trsf_Multiplied :: "trsf \<Rightarrow> trsf \<Rightarrow> kernel_error + trsf" where
  "trsf_Multiplied A B =
     (case (shift A, shift B) of
        ((ax, ay, az), (bx, by, bz)) \<Rightarrow>
          Inr \<lparr>factor = factor A * factor B,
               shift = (factor B * ax + bx, factor B * ay + by, factor B * az + bz)\<rparr>)"

definition sample_kernel :: "(trsf, kernel_error) kernel" where
  "sample_kernel =
     \<lparr>gp_Trsf = trsf_identity,
      SetScaleFactor = trsf_SetScaleFactor,
      Trsf_Multiplied = trsf_Multiplied,
      Trsf_IsIdentity = (\<lambda>T. T = trsf_identity)\<rparr>"

text \<open>A heap with four objects: a translation, an object of another class, the identity and
  a scaling.\<close>

definition sample_heap :: "trsf heap" where
  "sample_heap =
     [XLocation \<lparr>factor = 1, shift = (1, 2, 3)\<rparr>,
      OtherLocation,
      XLocation trsf_identity,
      XLocation \<lparr>factor = 2, shift = (0, 0, 0)\<rparr>]"

text \<open>A second heap, holding two of the same transforms at other addresses.\<close>

definition other_heap :: "trsf heap" where
  "other_heap =
     [OtherLocation,
      XLocation \<lparr>factor = 2, shift = (0, 0, 0)\<rparr>,
      XLocation \<lparr>factor = 1, shift = (1, 2, 3)\<rparr>]"

section \<open>What a returning call has done\<close>

text \<open>Whenever a method returns, it has allocated exactly one object, an \<^verbatim>\<open>XLocation\<close>, and
  returns the handle of that object.\<close>

lemma Multiplied_returns:
  "Multiplied k h this location = Inr (p, h') \<Longrightarrow>
     p = Some (length h) \<and> (\<exists>t. h' = h @ [XLocation t])"
  by (auto simp: Multiplied_def gcnew_def Let_def
           split: if_splits option.splits sum.splits)

lemma ScaledBy_returns:
  "ScaledBy k h this scale = Inr (p, h') \<Longrightarrow>
     p = Some (length h) \<and> (\<exists>t. h' = h @ [XLocation t])"
  by (auto simp: ScaledBy_def gcnew_def Let_def split: sum.splits)

text \<open>The sample values, evaluated once.\<close>

lemma sample_heap_0: "sample_heap ! 0 = XLocation \<lparr>factor = 1, shift = (1, 2, 3)\<rparr>"
  by (simp add: sample_heap_def)

lemma sample_heap_1: "sample_heap ! 1 = OtherLocation"
  by (simp add: sample_heap_def)

lemma sample_heap_2: "sample_heap ! 2 = XLocation trsf_identity"
  by (simp add: sample_heap_def)

lemma sample_heap_3: "sample_heap ! 3 = XLocation \<lparr>factor = 2, shift = (0, 0, 0)\<rparr>"
  by (simp add: sample_heap_def)

lemma length_sample_heap: "length sample_heap = 4"
  by (simp add: sample_heap_def)

lemma Multiplied_sample:
  "Multiplied sample_kernel sample_heap 0 (Some 3)
     = Inr (Some 4, sample_heap @ [XLocation \<lparr>factor = 2, shift = (1, 2, 3)\<rparr>])"
  by (simp add: Multiplied_def dynamic_cast_XLocation_def IsIdentity_def Ref_def gcnew_def
        sample_heap_0 sample_heap_3 length_sample_heap sample_kernel_def trsf_Multiplied_def
        trsf_identity_def)

lemma Multiplied_sample_identity:
  "Multiplied sample_kernel sample_heap 0 (Some 2)
     = Inr (Some 4, sample_heap @ [XLocation \<lparr>factor = 1, shift = (1, 2, 3)\<rparr>])"
  by (simp add: Multiplied_def dynamic_cast_XLocation_def IsIdentity_def Ref_def gcnew_def
        sample_heap_0 sample_heap_2 length_sample_heap sample_kernel_def)

lemma SetScaleFactor_sample:
  "SetScaleFactor sample_kernel (gp_Trsf sample_kernel) (Finite r)
     = Inr \<lparr>factor = r, shift = (0, 0, 0)\<rparr>"
  by (simp add: sample_kernel_def trsf_SetScaleFactor_def trsf_identity_def)

lemma SetScaleFactor_sample_NaN:
  "SetScaleFactor sample_kernel (gp_Trsf sample_kernel) NaN = Inl ConstructionError"
  by (simp add: sample_kernel_def trsf_SetScaleFactor_def)

lemma Trsf_Multiplied_sample_scaler:
  "Trsf_Multiplied sample_kernel \<lparr>factor = 1, shift = (1, 2, 3)\<rparr> \<lparr>factor = r, shift = (0, 0, 0)\<rparr>
     = Inr \<lparr>factor = r, shift = (r, r * 2, r * 3)\<rparr>"
  by (simp add: sample_kernel_def trsf_Multiplied_def)

lemma ScaledBy_sample:
  "ScaledBy sample_kernel sample_heap 0 (Finite 2)
     = Inr (Some 4, sample_heap @ [XLocation \<lparr>factor = 2, shift = (2, 4, 6)\<rparr>])"
  by (simp add: ScaledBy_def Ref_def gcnew_def sample_heap_0 length_sample_heap
        SetScaleFactor_sample Trsf_Multiplied_sample_scaler)

text \<open>What the caller sees of each method, in terms of what the method reads.\<close>

lemma outcome_gcnew: "outcome (Inr (gcnew h (XLocation t))) = Inr (Some t)"
  by (simp add: outcome_def gcnew_def Ref_def)

lemma outcome_Inl: "outcome (Inl e) = Inl e"
  by (simp add: outcome_def)

lemma outcome_Multiplied:
  "outcome (Multiplied k h this location) =
     (case native_transform h location of
        None \<Rightarrow> Inr (Some (Ref h this))
      | Some tB \<Rightarrow>
          if Trsf_IsIdentity k tB then Inr (Some (Ref h this))
          else (case Trsf_Multiplied k tB (Ref h this) of
                  Inl e \<Rightarrow> Inl e
                | Inr t \<Rightarrow> Inr (Some t)))"
  by (cases location)
     (auto simp: Multiplied_def native_transform_def dynamic_cast_XLocation_def
                 IsIdentity_def outcome_gcnew outcome_Inl Let_def
           split: option.splits sum.splits IXLocation.splits)

lemma outcome_ScaledBy:
  "outcome (ScaledBy k h this scale) =
     (case SetScaleFactor k (gp_Trsf k) scale of
        Inl e \<Rightarrow> Inl e
      | Inr scaler \<Rightarrow>
          (case Trsf_Multiplied k (Ref h this) scaler of
             Inl e \<Rightarrow> Inl e
           | Inr t \<Rightarrow> Inr (Some t)))"
  by (auto simp: ScaledBy_def outcome_gcnew outcome_Inl Let_def split: sum.splits)

section \<open>\<^verbatim>\<open>Multiplied\<close>\<close>

text \<open>
  Claim C1. When the argument is a non-null handle to an \<^verbatim>\<open>XLocation\<close> \<open>B\<close> whose transform
  is not the identity, \<open>A.Multiplied(B)\<close> returns a new Location that wraps the kernel's
  \<open>B.transform.Multiplied(A.transform)\<close>: the argument's transform is the receiver of the
  kernel call and this one its operand. It is not the product in the other order,
  \<open>A.transform.Multiplied(B.transform)\<close>, wherever the kernel gives the two orders different
  values.
\<close>

theorem Multiplied_composes_argument_first:
  assumes "h ! this = XLocation tA"
      and "h ! b = XLocation tB"
      and "\<not> Trsf_IsIdentity k tB"
      and "Trsf_Multiplied k tB tA = Inr t"
  shows "Multiplied k h this (Some b) = Inr (Some (length h), h @ [XLocation t]) \<and>
         (\<forall>t'. Trsf_Multiplied k tA tB = Inr t' \<and> t' \<noteq> t \<longrightarrow>
               Multiplied k h this (Some b) \<noteq> Inr (Some (length h), h @ [XLocation t']))"
  using assms
  by (auto simp: Multiplied_def dynamic_cast_XLocation_def IsIdentity_def Ref_def gcnew_def)

theorem Multiplied_composes_argument_first_witness:
  "sample_heap ! 0 = XLocation \<lparr>factor = 1, shift = (1, 2, 3)\<rparr> \<and>
   sample_heap ! 3 = XLocation \<lparr>factor = 2, shift = (0, 0, 0)\<rparr> \<and>
   \<not> Trsf_IsIdentity sample_kernel \<lparr>factor = 2, shift = (0, 0, 0)\<rparr> \<and>
   Trsf_Multiplied sample_kernel \<lparr>factor = 2, shift = (0, 0, 0)\<rparr> \<lparr>factor = 1, shift = (1, 2, 3)\<rparr>
     = Inr \<lparr>factor = 2, shift = (1, 2, 3)\<rparr> \<and>
   Trsf_Multiplied sample_kernel \<lparr>factor = 1, shift = (1, 2, 3)\<rparr> \<lparr>factor = 2, shift = (0, 0, 0)\<rparr>
     = Inr \<lparr>factor = 2, shift = (2, 4, 6)\<rparr> \<and>
   Multiplied sample_kernel sample_heap 0 (Some 3)
     = Inr (Some 4, sample_heap @ [XLocation \<lparr>factor = 2, shift = (1, 2, 3)\<rparr>]) \<and>
   Multiplied sample_kernel sample_heap 0 (Some 3)
     \<noteq> Inr (Some 4, sample_heap @ [XLocation \<lparr>factor = 2, shift = (2, 4, 6)\<rparr>])"
proof -
  have nid: "\<not> Trsf_IsIdentity sample_kernel \<lparr>factor = 2, shift = (0, 0, 0)\<rparr>"
    by (simp add: sample_kernel_def trsf_identity_def)
  have BA: "Trsf_Multiplied sample_kernel \<lparr>factor = 2, shift = (0, 0, 0)\<rparr>
              \<lparr>factor = 1, shift = (1, 2, 3)\<rparr> = Inr \<lparr>factor = 2, shift = (1, 2, 3)\<rparr>"
    by (simp add: sample_kernel_def trsf_Multiplied_def)
  have AB: "Trsf_Multiplied sample_kernel \<lparr>factor = 1, shift = (1, 2, 3)\<rparr>
              \<lparr>factor = 2, shift = (0, 0, 0)\<rparr> = Inr \<lparr>factor = 2, shift = (2, 4, 6)\<rparr>"
    by (simp add: sample_kernel_def trsf_Multiplied_def)
  from Multiplied_composes_argument_first [OF sample_heap_0 sample_heap_3 nid BA]
    sample_heap_0 sample_heap_3 nid BA AB length_sample_heap
  show ?thesis by simp
qed

text \<open>
  Claim C2. When the argument is \<^verbatim>\<open>nullptr\<close>, or an object that is not an \<^verbatim>\<open>XLocation\<close>, or an
  \<^verbatim>\<open>XLocation\<close> whose transform the kernel calls the identity, \<open>L.Multiplied(argument)\<close>
  returns a new Location that wraps a copy of \<open>L\<close>'s own transform. It returns whatever
  the kernel is: no kernel operation that could raise is called, so no exception leaves.
\<close>

theorem Multiplied_short_circuit:
  assumes "h ! this = XLocation tA"
      and "location = None
           \<or> (\<exists>b. location = Some b \<and> h ! b = OtherLocation)
           \<or> (\<exists>b tB. location = Some b \<and> h ! b = XLocation tB \<and> Trsf_IsIdentity k tB)"
  shows "Multiplied k h this location = Inr (Some (length h), h @ [XLocation tA])"
  using assms
  by (auto simp: Multiplied_def dynamic_cast_XLocation_def IsIdentity_def Ref_def gcnew_def)

theorem Multiplied_short_circuit_witness:
  "sample_heap ! 0 = XLocation \<lparr>factor = 1, shift = (1, 2, 3)\<rparr> \<and>
   sample_heap ! 1 = OtherLocation \<and>
   sample_heap ! 2 = XLocation trsf_identity \<and> Trsf_IsIdentity sample_kernel trsf_identity \<and>
   Multiplied sample_kernel sample_heap 0 None
     = Inr (Some 4, sample_heap @ [XLocation \<lparr>factor = 1, shift = (1, 2, 3)\<rparr>]) \<and>
   Multiplied sample_kernel sample_heap 0 (Some 1)
     = Inr (Some 4, sample_heap @ [XLocation \<lparr>factor = 1, shift = (1, 2, 3)\<rparr>]) \<and>
   Multiplied sample_kernel sample_heap 0 (Some 2)
     = Inr (Some 4, sample_heap @ [XLocation \<lparr>factor = 1, shift = (1, 2, 3)\<rparr>])"
proof -
  have isid: "Trsf_IsIdentity sample_kernel trsf_identity"
    by (simp add: sample_kernel_def)
  have c1: "Multiplied sample_kernel sample_heap 0 None
     = Inr (Some 4, sample_heap @ [XLocation \<lparr>factor = 1, shift = (1, 2, 3)\<rparr>])"
    using Multiplied_short_circuit [of sample_heap 0 _ None sample_kernel, OF sample_heap_0]
      length_sample_heap by simp
  have c2: "Multiplied sample_kernel sample_heap 0 (Some 1)
     = Inr (Some 4, sample_heap @ [XLocation \<lparr>factor = 1, shift = (1, 2, 3)\<rparr>])"
    using Multiplied_short_circuit [of sample_heap 0 _ "Some 1" sample_kernel, OF sample_heap_0]
      sample_heap_1 length_sample_heap by simp
  have c3: "Multiplied sample_kernel sample_heap 0 (Some 2)
     = Inr (Some 4, sample_heap @ [XLocation \<lparr>factor = 1, shift = (1, 2, 3)\<rparr>])"
    using Multiplied_short_circuit [of sample_heap 0 _ "Some 2" sample_kernel, OF sample_heap_0]
      sample_heap_2 isid length_sample_heap by simp
  from sample_heap_0 sample_heap_1 sample_heap_2 isid c1 c2 c3 show ?thesis by simp
qed

section \<open>\<^verbatim>\<open>ScaledBy\<close>\<close>

text \<open>
  Claim C3. For every Location \<open>L\<close> and every scale, \<open>L.ScaledBy(scale)\<close> builds a scaling
  transform from a default-constructed (identity) one by setting its factor to \<open>scale\<close>,
  composes it as \<open>L.transform.Multiplied(scaler)\<close>, this transform being the receiver of
  the kernel call and the scaler its operand, and returns the product wrapped in a new
  Location.
\<close>

theorem ScaledBy_composes_scaler:
  assumes "h ! this = XLocation tA"
      and "SetScaleFactor k (gp_Trsf k) scale = Inr scaler"
      and "Trsf_Multiplied k tA scaler = Inr t"
  shows "ScaledBy k h this scale = Inr (Some (length h), h @ [XLocation t])"
  using assms by (simp add: ScaledBy_def Ref_def gcnew_def)

theorem ScaledBy_composes_scaler_witness:
  "sample_heap ! 0 = XLocation \<lparr>factor = 1, shift = (1, 2, 3)\<rparr> \<and>
   SetScaleFactor sample_kernel (gp_Trsf sample_kernel) (Finite (- 3))
     = Inr \<lparr>factor = - 3, shift = (0, 0, 0)\<rparr> \<and>
   Trsf_Multiplied sample_kernel \<lparr>factor = 1, shift = (1, 2, 3)\<rparr> \<lparr>factor = - 3, shift = (0, 0, 0)\<rparr>
     = Inr \<lparr>factor = - 3, shift = (- 3, - 6, - 9)\<rparr> \<and>
   ScaledBy sample_kernel sample_heap 0 (Finite (- 3))
     = Inr (Some 4, sample_heap @ [XLocation \<lparr>factor = - 3, shift = (- 3, - 6, - 9)\<rparr>])"
  using ScaledBy_composes_scaler [OF sample_heap_0 SetScaleFactor_sample
      Trsf_Multiplied_sample_scaler, of "- 3"]
    sample_heap_0 SetScaleFactor_sample [of "- 3"] Trsf_Multiplied_sample_scaler [of "- 3"]
    length_sample_heap
  by simp

text \<open>
  Claim C4. \<open>L.ScaledBy(0)\<close> raises nothing of its own: it returns a Location that wraps
  whatever transform the kernel produces for the factor 0. For every scale, zero, negative
  or not finite, the scale reaches the kernel's setter as it is, and an exception leaves
  \<^verbatim>\<open>ScaledBy\<close> exactly when one of its two kernel calls raised it: the layer has no error
  of its own.
\<close>

theorem ScaledBy_no_validation:
  assumes "h ! this = XLocation tA"
  shows "(\<forall>scaler t. SetScaleFactor k (gp_Trsf k) (Finite 0) = Inr scaler \<and>
                     Trsf_Multiplied k tA scaler = Inr t \<longrightarrow>
            ScaledBy k h this (Finite 0) = Inr (Some (length h), h @ [XLocation t])) \<and>
         (\<forall>scale e. ScaledBy k h this scale = Inl e \<longleftrightarrow>
            SetScaleFactor k (gp_Trsf k) scale = Inl e \<or>
            (\<exists>scaler. SetScaleFactor k (gp_Trsf k) scale = Inr scaler \<and>
                       Trsf_Multiplied k tA scaler = Inl e))"
  using assms
  by (auto simp: ScaledBy_def Ref_def gcnew_def split: sum.splits)

theorem ScaledBy_no_validation_witness:
  "sample_heap ! 0 = XLocation \<lparr>factor = 1, shift = (1, 2, 3)\<rparr> \<and>
   SetScaleFactor sample_kernel (gp_Trsf sample_kernel) (Finite 0)
     = Inr \<lparr>factor = 0, shift = (0, 0, 0)\<rparr> \<and>
   Trsf_Multiplied sample_kernel \<lparr>factor = 1, shift = (1, 2, 3)\<rparr> \<lparr>factor = 0, shift = (0, 0, 0)\<rparr>
     = Inr \<lparr>factor = 0, shift = (0, 0, 0)\<rparr> \<and>
   ScaledBy sample_kernel sample_heap 0 (Finite 0)
     = Inr (Some 4, sample_heap @ [XLocation \<lparr>factor = 0, shift = (0, 0, 0)\<rparr>]) \<and>
   SetScaleFactor sample_kernel (gp_Trsf sample_kernel) NaN = Inl ConstructionError \<and>
   ScaledBy sample_kernel sample_heap 0 NaN = Inl ConstructionError"
proof -
  note V = ScaledBy_no_validation [OF sample_heap_0, of sample_kernel]
  have zero: "ScaledBy sample_kernel sample_heap 0 (Finite 0)
     = Inr (Some 4, sample_heap @ [XLocation \<lparr>factor = 0, shift = (0, 0, 0)\<rparr>])"
    using V [THEN conjunct1, rule_format,
        OF conjI [OF SetScaleFactor_sample Trsf_Multiplied_sample_scaler]]
      length_sample_heap by simp
  have nan: "ScaledBy sample_kernel sample_heap 0 NaN = Inl ConstructionError"
    using V [THEN conjunct2, rule_format, of NaN ConstructionError] SetScaleFactor_sample_NaN
    by simp
  from sample_heap_0 SetScaleFactor_sample [of 0] Trsf_Multiplied_sample_scaler [of 0]
    zero SetScaleFactor_sample_NaN nan
  show ?thesis by simp
qed

text \<open>
  Claim C6. \<open>L.ScaledBy(1.0)\<close> yields a Location whose wrapped transform equals \<open>L\<close>'s
  transform, for every kernel in which the factor 1.0 set on the identity leaves the
  identity and the identity is neutral on the right of \<open>L\<close>'s transform.
\<close>

theorem ScaledBy_one:
  assumes "h ! this = XLocation tA"
      and "identity_laws k tA"
  shows "ScaledBy k h this (Finite 1) = Inr (Some (length h), h @ [XLocation tA]) \<and>
         outcome (ScaledBy k h this (Finite 1)) = Inr (Some tA)"
  using assms
  by (simp add: ScaledBy_def identity_laws_def Ref_def outcome_def gcnew_def)

theorem ScaledBy_one_witness:
  "sample_heap ! 0 = XLocation \<lparr>factor = 1, shift = (1, 2, 3)\<rparr> \<and>
   identity_laws sample_kernel \<lparr>factor = 1, shift = (1, 2, 3)\<rparr> \<and>
   ScaledBy sample_kernel sample_heap 0 (Finite 1)
     = Inr (Some 4, sample_heap @ [XLocation \<lparr>factor = 1, shift = (1, 2, 3)\<rparr>]) \<and>
   outcome (ScaledBy sample_kernel sample_heap 0 (Finite 1))
     = Inr (Some \<lparr>factor = 1, shift = (1, 2, 3)\<rparr>)"
proof -
  have laws: "identity_laws sample_kernel \<lparr>factor = 1, shift = (1, 2, 3)\<rparr>"
    by (simp add: identity_laws_def sample_kernel_def trsf_SetScaleFactor_def
          trsf_Multiplied_def trsf_identity_def)
  note one = ScaledBy_one [OF sample_heap_0 laws]
  have new: "ScaledBy sample_kernel sample_heap 0 (Finite 1)
     = Inr (Some 4, sample_heap @ [XLocation \<lparr>factor = 1, shift = (1, 2, 3)\<rparr>])"
    using one [THEN conjunct1] length_sample_heap by simp
  from sample_heap_0 laws new one [THEN conjunct2]
  show ?thesis by (intro conjI)
qed

section \<open>Effects on the heap\<close>

text \<open>
  Claim C5. A Location is immutable: whatever the argument and the scale, after
  \<open>L.Multiplied\<close> or \<open>L.ScaledBy\<close> has returned, the object \<open>L\<close> and the transform it wraps
  are what they were, every object allocated before the call is unchanged, and the
  returned handle is that of a new object, not of \<open>L\<close>.
\<close>

theorem Location_immutable:
  assumes "this < length h"
  shows "(\<forall>p h'. Multiplied k h this location = Inr (p, h') \<longrightarrow>
            h' ! this = h ! this \<and> Ref h' this = Ref h this \<and>
            p = Some (length h) \<and> p \<noteq> Some this \<and> take (length h) h' = h) \<and>
         (\<forall>p h'. ScaledBy k h this scale = Inr (p, h') \<longrightarrow>
            h' ! this = h ! this \<and> Ref h' this = Ref h this \<and>
            p = Some (length h) \<and> p \<noteq> Some this \<and> take (length h) h' = h)"
proof (intro conjI allI impI)
  fix p h'
  assume "Multiplied k h this location = Inr (p, h')"
  then obtain t where "p = Some (length h)" "h' = h @ [XLocation t]"
    using Multiplied_returns by blast
  with assms show "h' ! this = h ! this" "Ref h' this = Ref h this" "p = Some (length h)"
    "p \<noteq> Some this" "take (length h) h' = h"
    by (simp_all add: nth_append Ref_def)
next
  fix p h'
  assume "ScaledBy k h this scale = Inr (p, h')"
  then obtain t where "p = Some (length h)" "h' = h @ [XLocation t]"
    using ScaledBy_returns by blast
  with assms show "h' ! this = h ! this" "Ref h' this = Ref h this" "p = Some (length h)"
    "p \<noteq> Some this" "take (length h) h' = h"
    by (simp_all add: nth_append Ref_def)
qed

theorem Location_immutable_witness:
  "(0::nat) < length sample_heap \<and>
   Multiplied sample_kernel sample_heap 0 (Some 3)
     = Inr (Some 4, sample_heap @ [XLocation \<lparr>factor = 2, shift = (1, 2, 3)\<rparr>]) \<and>
   (sample_heap @ [XLocation \<lparr>factor = 2, shift = (1, 2, 3)\<rparr>]) ! 0 = sample_heap ! 0 \<and>
   Ref (sample_heap @ [XLocation \<lparr>factor = 2, shift = (1, 2, 3)\<rparr>]) 0 = Ref sample_heap 0 \<and>
   take (length sample_heap) (sample_heap @ [XLocation \<lparr>factor = 2, shift = (1, 2, 3)\<rparr>])
     = sample_heap \<and>
   ScaledBy sample_kernel sample_heap 0 (Finite 2)
     = Inr (Some 4, sample_heap @ [XLocation \<lparr>factor = 2, shift = (2, 4, 6)\<rparr>]) \<and>
   (sample_heap @ [XLocation \<lparr>factor = 2, shift = (2, 4, 6)\<rparr>]) ! 0 = sample_heap ! 0 \<and>
   Ref (sample_heap @ [XLocation \<lparr>factor = 2, shift = (2, 4, 6)\<rparr>]) 0 = Ref sample_heap 0 \<and>
   take (length sample_heap) (sample_heap @ [XLocation \<lparr>factor = 2, shift = (2, 4, 6)\<rparr>])
     = sample_heap"
proof -
  have lt: "(0::nat) < length sample_heap"
    by (simp add: length_sample_heap)
  note I = Location_immutable [OF lt, of sample_kernel "Some 3" "Finite 2"]
  note M = I [THEN conjunct1, rule_format, OF Multiplied_sample]
  note S = I [THEN conjunct2, rule_format, OF ScaledBy_sample]
  from lt Multiplied_sample ScaledBy_sample M S show ?thesis
    by blast
qed

text \<open>
  Claim C8. Neither method returns \<^verbatim>\<open>nullptr\<close>. In every branch a returning call hands
  back the handle of an \<^verbatim>\<open>XLocation\<close> allocated by that call: an address that held no object
  before, hence distinct from the receiver and from the argument.
\<close>

theorem result_fresh_never_null:
  assumes "this < length h"
      and "valid_handle h location"
  shows "(\<forall>p h'. Multiplied k h this location = Inr (p, h') \<longrightarrow>
            p \<noteq> None \<and> p \<noteq> Some this \<and> p \<noteq> location \<and> \<not> valid_handle h p \<and>
            (\<exists>t. p = Some (length h) \<and> h' = h @ [XLocation t])) \<and>
         (\<forall>p h'. ScaledBy k h this scale = Inr (p, h') \<longrightarrow>
            p \<noteq> None \<and> p \<noteq> Some this \<and> \<not> valid_handle h p \<and>
            (\<exists>t. p = Some (length h) \<and> h' = h @ [XLocation t]))"
proof (intro conjI allI impI)
  fix p h'
  assume "Multiplied k h this location = Inr (p, h')"
  then have r: "p = Some (length h) \<and> (\<exists>t. h' = h @ [XLocation t])"
    by (rule Multiplied_returns)
  with assms show "p \<noteq> None" "p \<noteq> Some this" "p \<noteq> location"
    "\<not> valid_handle h p" "\<exists>t. p = Some (length h) \<and> h' = h @ [XLocation t]"
    by (auto simp: valid_handle_def)
next
  fix p h'
  assume "ScaledBy k h this scale = Inr (p, h')"
  then have r: "p = Some (length h) \<and> (\<exists>t. h' = h @ [XLocation t])"
    by (rule ScaledBy_returns)
  with assms show "p \<noteq> None" "p \<noteq> Some this"
    "\<not> valid_handle h p" "\<exists>t. p = Some (length h) \<and> h' = h @ [XLocation t]"
    by (auto simp: valid_handle_def)
qed

theorem result_fresh_never_null_witness:
  "(0::nat) < length sample_heap \<and> valid_handle sample_heap (Some 3) \<and>
   Multiplied sample_kernel sample_heap 0 (Some 3)
     = Inr (Some 4, sample_heap @ [XLocation \<lparr>factor = 2, shift = (1, 2, 3)\<rparr>]) \<and>
   ScaledBy sample_kernel sample_heap 0 (Finite 2)
     = Inr (Some 4, sample_heap @ [XLocation \<lparr>factor = 2, shift = (2, 4, 6)\<rparr>]) \<and>
   Some 4 \<noteq> (None :: handle) \<and> Some 4 \<noteq> Some (0::nat) \<and> Some 4 \<noteq> Some (3::nat) \<and>
   \<not> valid_handle sample_heap (Some 4)"
proof -
  have lt: "(0::nat) < length sample_heap"
    by (simp add: length_sample_heap)
  have v: "valid_handle sample_heap (Some 3)"
    by (simp add: valid_handle_def length_sample_heap)
  note F = result_fresh_never_null [OF lt v, of sample_kernel "Finite 2"]
  note M = F [THEN conjunct1, rule_format, OF Multiplied_sample]
  note S = F [THEN conjunct2, rule_format, OF ScaledBy_sample]
  from lt v Multiplied_sample ScaledBy_sample M S show ?thesis
    by simp
qed

text \<open>
  Claim C9. \<open>L.Multiplied(B)\<close> does not change its argument: for a non-null \<open>B\<close>, the object,
  the transform it wraps and its \<^verbatim>\<open>IsIdentity\<close> are after the call what they were before,
  whichever branch was taken.
\<close>

theorem Multiplied_argument_unchanged:
  assumes "b < length h"
      and "Multiplied k h this (Some b) = Inr (p, h')"
  shows "h' ! b = h ! b \<and> Ref h' b = Ref h b \<and> IsIdentity k h' b = IsIdentity k h b"
proof -
  obtain t where "h' = h @ [XLocation t]"
    using Multiplied_returns [OF assms(2)] by blast
  with assms(1) show ?thesis
    by (simp add: nth_append Ref_def IsIdentity_def)
qed

theorem Multiplied_argument_unchanged_witness:
  "(2::nat) < length sample_heap \<and>
   Multiplied sample_kernel sample_heap 0 (Some 2)
     = Inr (Some 4, sample_heap @ [XLocation \<lparr>factor = 1, shift = (1, 2, 3)\<rparr>]) \<and>
   (sample_heap @ [XLocation \<lparr>factor = 1, shift = (1, 2, 3)\<rparr>]) ! 2 = sample_heap ! 2 \<and>
   Ref (sample_heap @ [XLocation \<lparr>factor = 1, shift = (1, 2, 3)\<rparr>]) 2 = Ref sample_heap 2 \<and>
   IsIdentity sample_kernel (sample_heap @ [XLocation \<lparr>factor = 1, shift = (1, 2, 3)\<rparr>]) 2
     = IsIdentity sample_kernel sample_heap 2 \<and>
   (3::nat) < length sample_heap \<and>
   Multiplied sample_kernel sample_heap 0 (Some 3)
     = Inr (Some 4, sample_heap @ [XLocation \<lparr>factor = 2, shift = (1, 2, 3)\<rparr>]) \<and>
   (sample_heap @ [XLocation \<lparr>factor = 2, shift = (1, 2, 3)\<rparr>]) ! 3 = sample_heap ! 3 \<and>
   Ref (sample_heap @ [XLocation \<lparr>factor = 2, shift = (1, 2, 3)\<rparr>]) 3 = Ref sample_heap 3 \<and>
   IsIdentity sample_kernel (sample_heap @ [XLocation \<lparr>factor = 2, shift = (1, 2, 3)\<rparr>]) 3
     = IsIdentity sample_kernel sample_heap 3"
proof -
  have lt2: "(2::nat) < length sample_heap" and lt3: "(3::nat) < length sample_heap"
    by (simp_all add: length_sample_heap)
  note U2 = Multiplied_argument_unchanged [OF lt2 Multiplied_sample_identity]
  note U3 = Multiplied_argument_unchanged [OF lt3 Multiplied_sample]
  from lt2 lt3 Multiplied_sample_identity Multiplied_sample U2 U3 show ?thesis
    by blast
qed

section \<open>Determinism\<close>

text \<open>
  Claim C10. Both methods are deterministic in what they read. Two calls of
  \<^verbatim>\<open>Multiplied\<close>, on any two heaps, whose receivers wrap equal transforms and whose arguments
  wrap equal transforms (or are both null or of another class) end alike: with the same
  exception, or with Locations that wrap equal transforms. So do two calls of
  \<^verbatim>\<open>ScaledBy\<close> whose receivers wrap equal transforms, with the same scale.
\<close>

theorem operations_deterministic:
  assumes "Ref h1 this1 = Ref h2 this2"
      and "native_transform h1 location1 = native_transform h2 location2"
  shows "outcome (Multiplied k h1 this1 location1) = outcome (Multiplied k h2 this2 location2) \<and>
         outcome (ScaledBy k h1 this1 scale) = outcome (ScaledBy k h2 this2 scale)"
  unfolding outcome_Multiplied outcome_ScaledBy assms by simp

theorem operations_deterministic_witness:
  "Ref sample_heap 0 = Ref other_heap 2 \<and>
   native_transform sample_heap (Some 3) = native_transform other_heap (Some 1) \<and>
   native_transform sample_heap None = native_transform other_heap (Some 0) \<and>
   outcome (Multiplied sample_kernel sample_heap 0 (Some 3))
     = outcome (Multiplied sample_kernel other_heap 2 (Some 1)) \<and>
   outcome (Multiplied sample_kernel sample_heap 0 None)
     = outcome (Multiplied sample_kernel other_heap 2 (Some 0)) \<and>
   outcome (ScaledBy sample_kernel sample_heap 0 (Finite 2))
     = outcome (ScaledBy sample_kernel other_heap 2 (Finite 2)) \<and>
   outcome (Multiplied sample_kernel sample_heap 0 (Some 3))
     = Inr (Some \<lparr>factor = 2, shift = (1, 2, 3)\<rparr>)"
proof -
  have r: "Ref sample_heap 0 = Ref other_heap 2"
    by (simp add: Ref_def sample_heap_def other_heap_def)
  have a: "native_transform sample_heap (Some 3) = native_transform other_heap (Some 1)"
    by (simp add: native_transform_def dynamic_cast_XLocation_def Ref_def
          sample_heap_def other_heap_def)
  have n: "native_transform sample_heap None = native_transform other_heap (Some 0)"
    by (simp add: native_transform_def dynamic_cast_XLocation_def other_heap_def)
  note D1 = operations_deterministic [OF r a, of sample_kernel "Finite 2"]
  note D2 = operations_deterministic [OF r n, of sample_kernel "Finite 2"]
  have v: "outcome (Multiplied sample_kernel sample_heap 0 (Some 3))
     = Inr (Some \<lparr>factor = 2, shift = (1, 2, 3)\<rparr>)"
    by (simp add: Multiplied_sample outcome_def Ref_def nth_append length_sample_heap)
  from r a n D1 D2 v show ?thesis
    by blast
qed

end
